theory Spec2Isabelle
  imports Complex_Main
begin

section \<open>Data model\<close>

text \<open>
  A decoded JSON value, as \<^verbatim>\<open>json.loads\<close> and \<^verbatim>\<open>request.get_json\<close> return it.
  \<open>JObj\<close> is the Python dict after loading: its keys are distinct and listed in
  insertion order. The coordinator never looks inside a payload, so numbers are kept
  as the idealised \<open>int\<close> and \<open>real\<close>.
\<close>

datatype json =
    JNull
  | JBool bool
  | JInt int
  | JFloat real
  | JStr string
  | JArr "json list"
  | JObj "(string \<times> json) list"

text \<open>The exceptions the modelled code can raise.\<close>

datatype py_error =
    IndexError        \<comment> \<open>\<^verbatim>\<open>topic_parts[i]\<close> with \<open>i\<close> out of range\<close>
  | ValueError        \<comment> \<open>\<^verbatim>\<open>msg.payload.decode()\<close> or \<^verbatim>\<open>json.loads\<close> rejects the payload\<close>
  | AttributeError    \<comment> \<open>\<^verbatim>\<open>data.get\<close> on a request body that is not a dict\<close>

text \<open>
  A job is the dict built by \<^verbatim>\<open>create_job\<close>: six fixed keys, and the key
  \<^verbatim>\<open>'responses'\<close>, which is absent (\<open>None\<close>) until the first response arrives.
\<close>

record job =
  job_id :: string
  jtype :: json
  timestamp :: string
  target_vehicles :: json
  parameters :: json
  status :: string
  responses :: "json list option"

text \<open>The four attributes of \<^verbatim>\<open>Car2XDashboard\<close> that hold state (app.py, lines 35-38).\<close>

record car2x_dashboard =
  vehicles :: "string \<rightharpoonup> json"
  infrastructure :: "string \<rightharpoonup> json"
  emergencies :: "json list"
  jobs :: "string \<rightharpoonup> job"

text \<open>
  An inbound MQTT message. \<open>payload\<close> is the result of
  \<^verbatim>\<open>json.loads(msg.payload.decode())\<close>: \<open>None\<close> when decoding or parsing raises.
\<close>

record mqtt_msg =
  topic :: string
  payload :: "json option"

text \<open>What the coordinator sends out: a socket.io event, an MQTT publication, a log line.\<close>

datatype effect =
    Emit string json
  | Publish string job
  | Print py_error

definition init_dashboard :: car2x_dashboard where
  "init_dashboard =
     \<lparr>vehicles = Map.empty, infrastructure = Map.empty, emergencies = [], jobs = Map.empty\<rparr>"

section \<open>Python primitives\<close>

text \<open>\<^verbatim>\<open>s.split(c)\<close>: cuts at every occurrence of \<open>c\<close>; the result is never empty.\<close>

fun split_on :: "char \<Rightarrow> string \<Rightarrow> string list" where
  "split_on c [] = [[]]"
| "split_on c (x # xs) =
     (if x = c then [] # split_on c xs
      else (case split_on c xs of
              w # ws \<Rightarrow> (x # w) # ws
            | [] \<Rightarrow> [[x]]))"

text \<open>\<^verbatim>\<open>xs[i]\<close> for \<open>i \<ge> 0\<close>: raises IndexError out of range.\<close>

definition py_index :: "'a list \<Rightarrow> nat \<Rightarrow> py_error + 'a" where
  "py_index xs i = (if i < length xs then Inr (xs ! i) else Inl IndexError)"

text \<open>\<^verbatim>\<open>xs[i] == v\<close>, which raises when the index does.\<close>

definition seg_is :: "string list \<Rightarrow> nat \<Rightarrow> string \<Rightarrow> py_error + bool" where
  "seg_is xs i v = (case py_index xs i of Inl e \<Rightarrow> Inl e | Inr x \<Rightarrow> Inr (x = v))"

text \<open>\<^verbatim>\<open>a and b\<close>: \<open>b\<close> is evaluated, and may raise, only when \<open>a\<close> is true.\<close>

definition py_and :: "py_error + bool \<Rightarrow> py_error + bool \<Rightarrow> py_error + bool" where
  "py_and a b = (case a of Inl e \<Rightarrow> Inl e | Inr t \<Rightarrow> (if t then b else Inr False))"

text \<open>\<^verbatim>\<open>if c: t else: e\<close>, where evaluating the condition may raise.\<close>

definition py_if :: "py_error + bool \<Rightarrow> py_error + 'a \<Rightarrow> py_error + 'a \<Rightarrow> py_error + 'a" where
  "py_if c t e = (case c of Inl err \<Rightarrow> Inl err | Inr b \<Rightarrow> (if b then t else e))"

text \<open>\<^verbatim>\<open>xs[-n:]\<close>: the last \<open>n\<close> elements, all of them when there are fewer.\<close>

definition py_last_n :: "nat \<Rightarrow> 'a list \<Rightarrow> 'a list" where
  "py_last_n n xs = drop (length xs - n) xs"

text \<open>\<^verbatim>\<open>d.get(k, default)\<close> on a dict.\<close>

definition dict_get :: "(string \<times> json) list \<Rightarrow> string \<Rightarrow> json \<Rightarrow> json" where
  "dict_get d k dflt = (case map_of d k of None \<Rightarrow> dflt | Some v \<Rightarrow> v)"

text \<open>Python truthiness of a JSON value, for \<^verbatim>\<open>parameters or {}\<close>.\<close>

fun truthy :: "json \<Rightarrow> bool" where
  "truthy JNull = False"
| "truthy (JBool b) = b"
| "truthy (JInt i) = (i \<noteq> 0)"
| "truthy (JFloat r) = (r \<noteq> 0)"
| "truthy (JStr s) = (s \<noteq> [])"
| "truthy (JArr xs) = (xs \<noteq> [])"
| "truthy (JObj kv) = (kv \<noteq> [])"

section \<open>The dashboard's message handler (app.py, lines 55-97)\<close>

text \<open>\<^verbatim>\<open>self.jobs[job_id].get('responses', [])\<close>\<close>

definition get_responses :: "job \<Rightarrow> json list" where
  "get_responses j = (case responses j of None \<Rightarrow> [] | Some rs \<Rightarrow> rs)"

text \<open>
  The body of the \<^verbatim>\<open>try\<close> block. The calls into the libraries
  (\<^verbatim>\<open>socketio.emit\<close>, \<^verbatim>\<open>publish\<close>) are taken to return normally, so every exception
  of the body is raised before the first assignment to a store and the state at an
  exception is the state at entry.
\<close>

definition on_mqtt_message_body ::
  "car2x_dashboard \<Rightarrow> mqtt_msg \<Rightarrow> py_error + car2x_dashboard \<times> effect list" where
  "on_mqtt_message_body self msg =
     (let topic_parts = split_on CHR ''/'' (topic msg) in
      case payload msg of
        None \<Rightarrow> Inl ValueError
      | Some message \<Rightarrow>
          py_if (py_and (seg_is topic_parts 1 ''vehicles'') (seg_is topic_parts 3 ''status''))
            (case py_index topic_parts 2 of
               Inl e \<Rightarrow> Inl e
             | Inr vehicle_id \<Rightarrow>
                 Inr (self\<lparr>vehicles := (vehicles self)(vehicle_id \<mapsto> message)\<rparr>,
                      [Emit ''vehicle_update'' message]))
         (py_if (py_and (seg_is topic_parts 1 ''vehicles'') (seg_is topic_parts 3 ''emergency''))
            (case py_index topic_parts 2 of
               Inl e \<Rightarrow> Inl e
             | Inr vehicle_id \<Rightarrow>
                 Inr (self,
                      [Emit ''vehicle_emergency''
                         (JObj [(''vehicle_id'', JStr vehicle_id), (''message'', message)])]))
         (py_if (seg_is topic_parts 1 ''infrastructure'')
            (case py_index topic_parts 2 of
               Inl e \<Rightarrow> Inl e
             | Inr infra_id \<Rightarrow>
                 Inr (self\<lparr>infrastructure := (infrastructure self)(infra_id \<mapsto> message)\<rparr>,
                      [Emit ''infrastructure_update'' message]))
         (py_if (seg_is topic_parts 1 ''emergency'')
            (Inr (self\<lparr>emergencies := emergencies self @ [message]\<rparr>,
                  [Emit ''emergency_alert'' message]))
         (py_if (seg_is topic_parts 1 ''jobs'')
            (case py_index topic_parts 2 of
               Inl e \<Rightarrow> Inl e
             | Inr jid \<Rightarrow>
                 (case jobs self jid of
                    None \<Rightarrow> Inr (self, [])
                  | Some j \<Rightarrow>
                      Inr (self\<lparr>jobs := (jobs self)
                                  (jid \<mapsto> j\<lparr>responses := Some (get_responses j @ [message])\<rparr>)\<rparr>,
                           [Emit ''job_response''
                              (JObj [(''job_id'', JStr jid), (''response'', message)])])))
            (Inr (self, [])))))))"

text \<open>The handler: \<^verbatim>\<open>except Exception\<close> prints the error and returns.\<close>

definition on_mqtt_message :: "car2x_dashboard \<Rightarrow> mqtt_msg \<Rightarrow> car2x_dashboard \<times> effect list" where
  "on_mqtt_message self msg =
     (case on_mqtt_message_body self msg of
        Inl e \<Rightarrow> (self, [Print e])
      | Inr r \<Rightarrow> r)"

text \<open>The state after a sequence of inbound messages, handled in arrival order.\<close>

definition deliver :: "car2x_dashboard \<Rightarrow> mqtt_msg list \<Rightarrow> car2x_dashboard" where
  "deliver self msgs = foldl (\<lambda>s m. fst (on_mqtt_message s m)) self msgs"

section \<open>Job creation and the read API (app.py, lines 109-167)\<close>

text \<open>
  \<^verbatim>\<open>Car2XDashboard.create_job\<close>. The two values the method draws from its environment
  are arguments: \<open>uuid4\<close> is \<^verbatim>\<open>str(uuid.uuid4())\<close> and \<open>now\<close> is
  \<^verbatim>\<open>datetime.now().isoformat()\<close>. The result is the new state, what was published,
  and the returned job ID.
\<close>

definition create_job ::
  "car2x_dashboard \<Rightarrow> json \<Rightarrow> json \<Rightarrow> json \<Rightarrow> string \<Rightarrow> string
     \<Rightarrow> (car2x_dashboard \<times> effect list) \<times> string" where
  "create_job self job_type targets params uuid4 now =
     (let jid = take 8 uuid4;
          new_job = \<lparr>job_id = jid,
                     jtype = job_type,
                     timestamp = now,
                     target_vehicles = targets,
                     parameters = (if truthy params then params else JObj []),
                     status = ''pending'',
                     responses = None\<rparr>
      in ((self\<lparr>jobs := (jobs self)(jid \<mapsto> new_job)\<rparr>,
           [Publish (''v2x/jobs/'' @ jid @ ''/assign'') new_job]),
          jid))"

text \<open>
  The route \<^verbatim>\<open>POST /api/create_job\<close>: \<open>data\<close> is \<^verbatim>\<open>request.get_json()\<close>. The result
  carries the JSON body of the reply.
\<close>

definition create_job_route ::
  "car2x_dashboard \<Rightarrow> json \<Rightarrow> string \<Rightarrow> string
     \<Rightarrow> py_error + (car2x_dashboard \<times> effect list) \<times> json" where
  "create_job_route self data uuid4 now =
     (case data of
        JObj d \<Rightarrow>
          (let r = create_job self
                     (dict_get d ''type'' JNull)
                     (dict_get d ''target_vehicles'' (JArr []))
                     (dict_get d ''parameters'' (JObj []))
                     uuid4 now
           in Inr (fst r, JObj [(''job_id'', JStr (snd r)), (''status'', JStr ''created'')]))
      | _ \<Rightarrow> Inl AttributeError)"

text \<open>\<^verbatim>\<open>GET /api/emergencies\<close>: \<^verbatim>\<open>dashboard.emergencies[-10:]\<close>.\<close>

definition get_emergencies :: "car2x_dashboard \<Rightarrow> json list" where
  "get_emergencies self = py_last_n 10 (emergencies self)"

text \<open>\<^verbatim>\<open>GET /api/jobs\<close>, \<^verbatim>\<open>GET /api/vehicles\<close>, \<^verbatim>\<open>GET /api/infrastructure\<close>: the whole dict.\<close>

definition get_jobs :: "car2x_dashboard \<Rightarrow> (string \<rightharpoonup> job)" where
  "get_jobs self = jobs self"

definition get_vehicles :: "car2x_dashboard \<Rightarrow> (string \<rightharpoonup> json)" where
  "get_vehicles self = vehicles self"

definition get_infrastructure :: "car2x_dashboard \<Rightarrow> (string \<rightharpoonup> json)" where
  "get_infrastructure self = infrastructure self"

section \<open>The topic codec the handlers implement\<close>

datatype message_kind =
    VehicleStatus
  | VehicleEmergency
  | InfrastructureUpdate
  | EmergencyBroadcast
  | JobAssignment
  | JobResponse

text \<open>
  The topic strings as the code writes them: the f-strings of v2x_simulator.py
  (lines 212, 157, 197, 231, 255) and app.py (line 126). Nothing in the repository
  publishes a single-vehicle emergency; its topic is the subscription pattern of
  app.py, line 50, with the identifier in the place of \<^verbatim>\<open>+\<close>. The broadcast topic has
  no identifier.
\<close>

fun format_topic :: "message_kind \<Rightarrow> string \<Rightarrow> string" where
  "format_topic VehicleStatus i = ''v2x/vehicles/'' @ i @ ''/status''"
| "format_topic VehicleEmergency i = ''v2x/vehicles/'' @ i @ ''/emergency''"
| "format_topic InfrastructureUpdate i = ''v2x/infrastructure/'' @ i"
| "format_topic EmergencyBroadcast i = ''v2x/emergency/broadcast''"
| "format_topic JobAssignment i = ''v2x/jobs/'' @ i @ ''/assign''"
| "format_topic JobResponse i = ''v2x/jobs/'' @ i @ ''/response''"

text \<open>
  The classification made by the conditions of \<^verbatim>\<open>Car2XDashboard.on_mqtt_message\<close>
  (app.py, lines 57-87), in their order: the branch taken and the identifier it reads.
  \<open>Inr None\<close> is a topic that no branch takes.
\<close>

definition parse_topic :: "string \<Rightarrow> py_error + (message_kind \<times> string option) option" where
  "parse_topic t =
     (let topic_parts = split_on CHR ''/'' t in
      py_if (py_and (seg_is topic_parts 1 ''vehicles'') (seg_is topic_parts 3 ''status''))
        (case py_index topic_parts 2 of
           Inl e \<Rightarrow> Inl e
         | Inr vehicle_id \<Rightarrow> Inr (Some (VehicleStatus, Some vehicle_id)))
     (py_if (py_and (seg_is topic_parts 1 ''vehicles'') (seg_is topic_parts 3 ''emergency''))
        (case py_index topic_parts 2 of
           Inl e \<Rightarrow> Inl e
         | Inr vehicle_id \<Rightarrow> Inr (Some (VehicleEmergency, Some vehicle_id)))
     (py_if (seg_is topic_parts 1 ''infrastructure'')
        (case py_index topic_parts 2 of
           Inl e \<Rightarrow> Inl e
         | Inr infra_id \<Rightarrow> Inr (Some (InfrastructureUpdate, Some infra_id)))
     (py_if (seg_is topic_parts 1 ''emergency'')
        (Inr (Some (EmergencyBroadcast, None)))
     (py_if (seg_is topic_parts 1 ''jobs'')
        (case py_index topic_parts 2 of
           Inl e \<Rightarrow> Inl e
         | Inr jid \<Rightarrow> Inr (Some (JobResponse, Some jid)))
        (Inr None))))))"

text \<open>What each branch of the handler does with the decoded payload.\<close>

fun route :: "car2x_dashboard \<Rightarrow> message_kind \<times> string option \<Rightarrow> json
                \<Rightarrow> car2x_dashboard \<times> effect list" where
  "route self (VehicleStatus, Some vehicle_id) message =
     (self\<lparr>vehicles := (vehicles self)(vehicle_id \<mapsto> message)\<rparr>,
      [Emit ''vehicle_update'' message])"
| "route self (VehicleEmergency, Some vehicle_id) message =
     (self, [Emit ''vehicle_emergency''
               (JObj [(''vehicle_id'', JStr vehicle_id), (''message'', message)])])"
| "route self (InfrastructureUpdate, Some infra_id) message =
     (self\<lparr>infrastructure := (infrastructure self)(infra_id \<mapsto> message)\<rparr>,
      [Emit ''infrastructure_update'' message])"
| "route self (EmergencyBroadcast, _) message =
     (self\<lparr>emergencies := emergencies self @ [message]\<rparr>, [Emit ''emergency_alert'' message])"
| "route self (JobResponse, Some jid) message =
     (case jobs self jid of
        None \<Rightarrow> (self, [])
      | Some j \<Rightarrow>
          (self\<lparr>jobs := (jobs self)
                    (jid \<mapsto> j\<lparr>responses := Some (get_responses j @ [message])\<rparr>)\<rparr>,
           [Emit ''job_response'' (JObj [(''job_id'', JStr jid), (''response'', message)])]))"
| "route self _ message = (self, [])"

section \<open>The simulator's message handler (v2x_simulator.py, lines 38-60 and 261-266)\<close>

record v2x_simulator =
  sim_vehicles :: "string \<rightharpoonup> json"
  sim_jobs :: "string \<rightharpoonup> job"

text \<open>
  The simulator's handlers print, and \<^verbatim>\<open>handle_job_assignment\<close> starts the thread
  that answers for each target after two seconds.
\<close>

datatype sim_effect =
    PrintEmergency string json
  | StartResponses string json
  | PrintResponse string json
  | PrintError py_error

text \<open>\<^verbatim>\<open>V2XSimulator.handle_job_response\<close>\<close>

definition handle_job_response ::
  "v2x_simulator \<Rightarrow> string \<Rightarrow> json \<Rightarrow> v2x_simulator \<times> sim_effect list" where
  "handle_job_response self jid response =
     (case sim_jobs self jid of
        None \<Rightarrow> (self, [])
      | Some j \<Rightarrow>
          (self\<lparr>sim_jobs := (sim_jobs self)
                    (jid \<mapsto> j\<lparr>responses := Some (get_responses j @ [response])\<rparr>)\<rparr>,
           [PrintResponse jid response]))"

definition on_message_body ::
  "v2x_simulator \<Rightarrow> mqtt_msg \<Rightarrow> py_error + v2x_simulator \<times> sim_effect list" where
  "on_message_body self msg =
     (let topic_parts = split_on CHR ''/'' (topic msg) in
      case payload msg of
        None \<Rightarrow> Inl ValueError
      | Some message \<Rightarrow>
          py_if (py_and (seg_is topic_parts 1 ''vehicles'') (seg_is topic_parts 3 ''status''))
            (case py_index topic_parts 2 of
               Inl e \<Rightarrow> Inl e
             | Inr vehicle_id \<Rightarrow>
                 Inr (self\<lparr>sim_vehicles := (sim_vehicles self)(vehicle_id \<mapsto> message)\<rparr>, []))
         (py_if (py_and (seg_is topic_parts 1 ''vehicles'') (seg_is topic_parts 3 ''emergency''))
            (case py_index topic_parts 2 of
               Inl e \<Rightarrow> Inl e
             | Inr vehicle_id \<Rightarrow> Inr (self, [PrintEmergency vehicle_id message]))
         (py_if (py_and (seg_is topic_parts 1 ''jobs'') (seg_is topic_parts 3 ''assign''))
            (case py_index topic_parts 2 of
               Inl e \<Rightarrow> Inl e
             | Inr jid \<Rightarrow> Inr (self, [StartResponses jid message]))
         (py_if (py_and (seg_is topic_parts 1 ''jobs'') (seg_is topic_parts 3 ''response''))
            (case py_index topic_parts 2 of
               Inl e \<Rightarrow> Inl e
             | Inr jid \<Rightarrow> Inr (handle_job_response self jid message))
            (Inr (self, []))))))"

definition on_message :: "v2x_simulator \<Rightarrow> mqtt_msg \<Rightarrow> v2x_simulator \<times> sim_effect list" where
  "on_message self msg =
     (case on_message_body self msg of
        Inl e \<Rightarrow> (self, [PrintError e])
      | Inr r \<Rightarrow> r)"

text \<open>The classification made by the conditions of \<^verbatim>\<open>V2XSimulator.on_message\<close>.\<close>

definition sim_parse_topic :: "string \<Rightarrow> py_error + (message_kind \<times> string option) option" where
  "sim_parse_topic t =
     (let topic_parts = split_on CHR ''/'' t in
      py_if (py_and (seg_is topic_parts 1 ''vehicles'') (seg_is topic_parts 3 ''status''))
        (case py_index topic_parts 2 of
           Inl e \<Rightarrow> Inl e
         | Inr vehicle_id \<Rightarrow> Inr (Some (VehicleStatus, Some vehicle_id)))
     (py_if (py_and (seg_is topic_parts 1 ''vehicles'') (seg_is topic_parts 3 ''emergency''))
        (case py_index topic_parts 2 of
           Inl e \<Rightarrow> Inl e
         | Inr vehicle_id \<Rightarrow> Inr (Some (VehicleEmergency, Some vehicle_id)))
     (py_if (py_and (seg_is topic_parts 1 ''jobs'') (seg_is topic_parts 3 ''assign''))
        (case py_index topic_parts 2 of
           Inl e \<Rightarrow> Inl e
         | Inr jid \<Rightarrow> Inr (Some (JobAssignment, Some jid)))
     (py_if (py_and (seg_is topic_parts 1 ''jobs'') (seg_is topic_parts 3 ''response''))
        (case py_index topic_parts 2 of
           Inl e \<Rightarrow> Inl e
         | Inr jid \<Rightarrow> Inr (Some (JobResponse, Some jid)))
        (Inr None)))))"

fun sim_route :: "v2x_simulator \<Rightarrow> message_kind \<times> string option \<Rightarrow> json
                    \<Rightarrow> v2x_simulator \<times> sim_effect list" where
  "sim_route self (VehicleStatus, Some vehicle_id) message =
     (self\<lparr>sim_vehicles := (sim_vehicles self)(vehicle_id \<mapsto> message)\<rparr>, [])"
| "sim_route self (VehicleEmergency, Some vehicle_id) message =
     (self, [PrintEmergency vehicle_id message])"
| "sim_route self (JobAssignment, Some jid) message = (self, [StartResponses jid message])"
| "sim_route self (JobResponse, Some jid) message = handle_job_response self jid message"
| "sim_route self _ message = (self, [])"

section \<open>The producers' side and the shape of identifiers\<close>

text \<open>
  A message sent with \<^verbatim>\<open>client.publish(topic, json.dumps(message))\<close>, as a subscriber
  receives it: the payload decodes to the message that was serialised.
\<close>

definition published :: "string \<Rightarrow> json \<Rightarrow> mqtt_msg" where
  "published t message = \<lparr>topic = t, payload = Some message\<rparr>"

text \<open>
  The shape of \<^verbatim>\<open>str(uuid.uuid4())\<close> in the Python library: 36 characters, lower-case
  hexadecimal digits in groups of 8, 4, 4, 4 and 12 with a hyphen between the groups.
\<close>

definition hex_digits :: string where
  "hex_digits = ''0123456789abcdef''"

definition uuid_hyphens :: "bool list" where
  "uuid_hyphens =
     replicate 8 False @ [True] @ replicate 4 False @ [True] @ replicate 4 False @ [True]
       @ replicate 4 False @ [True] @ replicate 12 False"

definition is_uuid4_str :: "string \<Rightarrow> bool" where
  "is_uuid4_str u \<longleftrightarrow>
     map (\<lambda>c. c = CHR ''-'') u = uuid_hyphens
     \<and> list_all (\<lambda>c. c = CHR ''-'' \<or> c \<in> set hex_digits) u"

text \<open>The identifiers \<^verbatim>\<open>str(uuid.uuid4())[:8]\<close> can take: eight hexadecimal digits.\<close>

definition job_id_space :: "string set" where
  "job_id_space = {xs. set xs \<subseteq> set hex_digits \<and> length xs = 8}"

text \<open>
  The topic table of the specification (section 6), in the specification's words: the
  six patterns, each of fixed depth under the domain \<^verbatim>\<open>v2x\<close>. It is used only to say
  which topics the specification calls malformed.
\<close>

definition spec_topic_grammar :: "string \<Rightarrow> bool" where
  "spec_topic_grammar t =
     (case split_on CHR ''/'' t of
        [d, c, i, k] \<Rightarrow>
          d = ''v2x'' \<and>
          (c = ''vehicles'' \<and> (k = ''status'' \<or> k = ''emergency'')
           \<or> c = ''jobs'' \<and> (k = ''assign'' \<or> k = ''response''))
      | [d, c, i] \<Rightarrow>
          d = ''v2x'' \<and> (c = ''infrastructure'' \<or> c = ''emergency'' \<and> i = ''broadcast'')
      | _ \<Rightarrow> False)"

section \<open>The handlers follow their classification\<close>

lemma body_parse_topic:
  "on_mqtt_message_body self msg =
     (case payload msg of
        None \<Rightarrow> Inl ValueError
      | Some message \<Rightarrow>
          (case parse_topic (topic msg) of
             Inl e \<Rightarrow> Inl e
           | Inr None \<Rightarrow> Inr (self, [])
           | Inr (Some a) \<Rightarrow> Inr (route self a message)))"
  unfolding on_mqtt_message_body_def parse_topic_def Let_def py_if_def py_and_def seg_is_def
  by (simp split: option.split sum.split)

lemma sim_body_parse_topic:
  "on_message_body self msg =
     (case payload msg of
        None \<Rightarrow> Inl ValueError
      | Some message \<Rightarrow>
          (case sim_parse_topic (topic msg) of
             Inl e \<Rightarrow> Inl e
           | Inr None \<Rightarrow> Inr (self, [])
           | Inr (Some a) \<Rightarrow> Inr (sim_route self a message)))"
  unfolding on_message_body_def sim_parse_topic_def Let_def py_if_def py_and_def seg_is_def
  by (simp split: option.split sum.split)

lemma on_mqtt_message_parse:
  "on_mqtt_message self msg =
     (case payload msg of
        None \<Rightarrow> (self, [Print ValueError])
      | Some message \<Rightarrow>
          (case parse_topic (topic msg) of
             Inl e \<Rightarrow> (self, [Print e])
           | Inr None \<Rightarrow> (self, [])
           | Inr (Some a) \<Rightarrow> route self a message))"
  by (simp add: on_mqtt_message_def body_parse_topic split: option.split sum.split)

lemmas parse_defs = parse_topic_def py_if_def py_and_def seg_is_def py_index_def

section \<open>Splitting and message sequences\<close>

lemma split_on_nonempty: "split_on c xs \<noteq> []"
  by (induction xs) (auto split: list.split)

lemma split_on_notin: "c \<notin> set xs \<Longrightarrow> split_on c xs = [xs]"
  by (induction xs) auto

lemma split_on_append: "c \<notin> set xs \<Longrightarrow> split_on c (xs @ c # ys) = xs # split_on c ys"
  by (induction xs) auto

lemma deliver_Nil: "deliver self [] = self"
  by (simp add: deliver_def)

lemma deliver_Cons: "deliver self (m # ms) = deliver (fst (on_mqtt_message self m)) ms"
  by (simp add: deliver_def)

lemma deliver_append: "deliver self (ms @ ns) = deliver (deliver self ms) ns"
  by (simp add: deliver_def)

section \<open>The entity state store\<close>

lemma vehicle_status_step:
  assumes "parse_topic (topic m) = Inr (Some (VehicleStatus, Some vid))" and "payload m = Some s"
  shows "vehicles (fst (on_mqtt_message self m)) = (vehicles self)(vid \<mapsto> s)"
  using assms by (simp add: on_mqtt_message_parse)

lemma other_vehicle_status_step:
  assumes "parse_topic (topic m) = Inr (Some (VehicleStatus, Some vid'))" and "vid' \<noteq> vid"
  shows "vehicles (fst (on_mqtt_message self m)) vid = vehicles self vid"
  using assms by (simp add: on_mqtt_message_parse split: option.split)

lemma other_vehicle_status_deliver:
  assumes "\<forall>m \<in> set ms. \<exists>vid'. vid' \<noteq> vid \<and>
             parse_topic (topic m) = Inr (Some (VehicleStatus, Some vid'))"
  shows "vehicles (deliver self ms) vid = vehicles self vid"
  using assms
proof (induction ms arbitrary: self)
  case Nil
  show ?case by (simp add: deliver_Nil)
next
  case (Cons m ms)
  from Cons.prems obtain vid' where
    "vid' \<noteq> vid" "parse_topic (topic m) = Inr (Some (VehicleStatus, Some vid'))"
    by auto
  then have "vehicles (fst (on_mqtt_message self m)) vid = vehicles self vid"
    by (rule other_vehicle_status_step[rotated])
  moreover have "vehicles (deliver (fst (on_mqtt_message self m)) ms) vid
                   = vehicles (fst (on_mqtt_message self m)) vid"
    using Cons.prems by (intro Cons.IH) simp
  ultimately show ?case by (simp add: deliver_Cons)
qed

text \<open>
  Claim C1. Last write wins in the vehicle store. Let \<open>m1\<close> and \<open>m2\<close> be two status
  messages for the same vehicle \<open>vid\<close> (messages the handler classifies as vehicle status
  with that identifier) carrying the snapshots \<open>s1\<close> and \<open>s2\<close>, and let any number of
  status messages for other vehicles arrive between them and after them. Whatever the
  state before, reading \<open>vid\<close> afterwards returns \<open>s2\<close>.
\<close>

theorem C1_last_write_wins:
  assumes up1: "parse_topic (topic m1) = Inr (Some (VehicleStatus, Some vid))"
               "payload m1 = Some s1"
      and up2: "parse_topic (topic m2) = Inr (Some (VehicleStatus, Some vid))"
               "payload m2 = Some s2"
      and others: "\<forall>m \<in> set between \<union> set after. \<exists>vid'. vid' \<noteq> vid \<and>
                     parse_topic (topic m) = Inr (Some (VehicleStatus, Some vid'))"
  shows "get_vehicles (deliver self (m1 # between @ m2 # after)) vid = Some s2"
proof -
  let ?s = "deliver self (m1 # between)"
  have "vehicles (fst (on_mqtt_message ?s m2)) vid = Some s2"
    using up2 by (simp add: vehicle_status_step)
  moreover have "vehicles (deliver (fst (on_mqtt_message ?s m2)) after) vid
                   = vehicles (fst (on_mqtt_message ?s m2)) vid"
    using others by (intro other_vehicle_status_deliver) simp
  moreover have "deliver self (m1 # between @ m2 # after)
                   = deliver (fst (on_mqtt_message ?s m2)) after"
    by (simp add: deliver_Cons deliver_append)
  ultimately show ?thesis by (simp add: get_vehicles_def)
qed

theorem C1_last_write_wins_witness:
  "parse_topic ''v2x/vehicles/V001/status'' = Inr (Some (VehicleStatus, Some ''V001''))
   \<and> parse_topic ''v2x/vehicles/V002/status'' = Inr (Some (VehicleStatus, Some ''V002''))
   \<and> get_vehicles
        (deliver init_dashboard
           (published ''v2x/vehicles/V001/status'' (JInt 1)
            # [published ''v2x/vehicles/V002/status'' (JInt 7)]
            @ published ''v2x/vehicles/V001/status'' (JInt 2)
            # [published ''v2x/vehicles/V003/status'' (JInt 9)])) ''V001'' = Some (JInt 2)"
proof -
  have "get_vehicles
        (deliver init_dashboard
           (published ''v2x/vehicles/V001/status'' (JInt 1)
            # [published ''v2x/vehicles/V002/status'' (JInt 7)]
            @ published ''v2x/vehicles/V001/status'' (JInt 2)
            # [published ''v2x/vehicles/V003/status'' (JInt 9)])) ''V001'' = Some (JInt 2)"
    by (rule C1_last_write_wins[where ?s1.0 = "JInt 1"])
       (simp_all add: published_def parse_defs)
  then show ?thesis
    by (simp add: parse_defs)
qed

section \<open>Responses for unknown jobs\<close>

text \<open>
  Claim C3. A response whose job ID is not a key of the job registry raises nothing
  (the body of the handler returns normally, so not even the handler's own
  \<^verbatim>\<open>except\<close> branch is entered), emits nothing, and leaves the whole state, the job
  records in particular, exactly as it was.
\<close>

theorem C3_unknown_job_ignored:
  assumes "parse_topic (topic m) = Inr (Some (JobResponse, Some jid))"
      and "payload m = Some r"
      and "jid \<notin> dom (jobs self)"
  shows "on_mqtt_message_body self m = Inr (self, [])
         \<and> on_mqtt_message self m = (self, [])
         \<and> get_jobs (fst (on_mqtt_message self m)) = get_jobs self"
proof -
  have "jobs self jid = None"
    using assms(3) by (simp add: domIff)
  with assms(1,2) show ?thesis
    by (simp add: on_mqtt_message_def body_parse_topic)
qed

theorem C3_unknown_job_ignored_witness:
  "parse_topic ''v2x/jobs/nonexistent-job/response''
     = Inr (Some (JobResponse, Some ''nonexistent-job''))
   \<and> ''nonexistent-job''
        \<notin> dom (jobs (fst (fst (create_job init_dashboard (JStr ''diagnostic'')
                                   (JArr [JStr ''V001'', JStr ''V002'']) JNull
                                   ''3f2b8c1e-aaaa-4aaa-8aaa-aaaaaaaaaaaa''
                                   ''2024-01-01T00:00:00''))))
   \<and> on_mqtt_message
        (fst (fst (create_job init_dashboard (JStr ''diagnostic'')
                     (JArr [JStr ''V001'', JStr ''V002'']) JNull
                     ''3f2b8c1e-aaaa-4aaa-8aaa-aaaaaaaaaaaa'' ''2024-01-01T00:00:00'')))
        (published ''v2x/jobs/nonexistent-job/response'' (JStr ''ack''))
       = (fst (fst (create_job init_dashboard (JStr ''diagnostic'')
                      (JArr [JStr ''V001'', JStr ''V002'']) JNull
                      ''3f2b8c1e-aaaa-4aaa-8aaa-aaaaaaaaaaaa'' ''2024-01-01T00:00:00'')),
          [])"
  using C3_unknown_job_ignored
          [of "published ''v2x/jobs/nonexistent-job/response'' (JStr ''ack'')"
              "''nonexistent-job''" "JStr ''ack''"
              "fst (fst (create_job init_dashboard (JStr ''diagnostic'')
                           (JArr [JStr ''V001'', JStr ''V002'']) JNull
                           ''3f2b8c1e-aaaa-4aaa-8aaa-aaaaaaaaaaaa'' ''2024-01-01T00:00:00''))"]
  by (simp add: published_def parse_defs create_job_def init_dashboard_def Let_def)

section \<open>Infrastructure updates and single-vehicle emergencies\<close>

text \<open>
  Claim C9. An infrastructure update is stored under the third segment of its topic,
  whatever the payload says: the payload \<open>v\<close> is arbitrary, so its
  \<^verbatim>\<open>infrastructure_id\<close> field plays no part in the key.
\<close>

theorem C9_infrastructure_keyed_by_topic:
  assumes "split_on CHR ''/'' (topic m) = d # ''infrastructure'' # iid # rest"
      and "payload m = Some v"
  shows "get_infrastructure (fst (on_mqtt_message self m)) = (infrastructure self)(iid \<mapsto> v)"
  using assms
  by (simp add: on_mqtt_message_def on_mqtt_message_body_def py_if_def py_and_def seg_is_def
      py_index_def get_infrastructure_def)

theorem C9_infrastructure_keyed_by_topic_witness:
  "split_on CHR ''/'' ''v2x/infrastructure/TL001'' = [''v2x'', ''infrastructure'', ''TL001'']
   \<and> get_infrastructure
        (fst (on_mqtt_message init_dashboard
                (published ''v2x/infrastructure/TL001''
                   (JObj [(''type'', JStr ''V2I''), (''infrastructure_id'', JStr ''TL999'')]))))
       = [''TL001'' \<mapsto> JObj [(''type'', JStr ''V2I''), (''infrastructure_id'', JStr ''TL999'')]]"
  using C9_infrastructure_keyed_by_topic
          [of "published ''v2x/infrastructure/TL001''
                 (JObj [(''type'', JStr ''V2I''), (''infrastructure_id'', JStr ''TL999'')])"
              "''v2x''" "''TL001''" "[]"
              "JObj [(''type'', JStr ''V2I''), (''infrastructure_id'', JStr ''TL999'')]"
              init_dashboard]
  by (simp add: published_def init_dashboard_def)

text \<open>
  Claim C10. A single-vehicle emergency (second segment \<^verbatim>\<open>vehicles\<close>, fourth segment
  \<^verbatim>\<open>emergency\<close>) changes none of the stores: the state after the handler is the state
  before it, so vehicles, infrastructure, jobs and the emergency history that
  \<open>get_emergencies\<close> replays are untouched. The only effect is the event forwarded to
  the observers.
\<close>

theorem C10_vehicle_emergency_frame:
  assumes "split_on CHR ''/'' (topic m) = d # ''vehicles'' # vid # ''emergency'' # rest"
      and "payload m = Some v"
  shows "on_mqtt_message self m =
           (self, [Emit ''vehicle_emergency''
                     (JObj [(''vehicle_id'', JStr vid), (''message'', v)])])
         \<and> get_emergencies (fst (on_mqtt_message self m)) = get_emergencies self"
  using assms
  by (simp add: on_mqtt_message_def on_mqtt_message_body_def py_if_def py_and_def seg_is_def
      py_index_def)

theorem C10_vehicle_emergency_frame_witness:
  "split_on CHR ''/'' ''v2x/vehicles/V001/emergency''
     = [''v2x'', ''vehicles'', ''V001'', ''emergency'']
   \<and> on_mqtt_message init_dashboard (published ''v2x/vehicles/V001/emergency'' (JStr ''sos''))
       = (init_dashboard,
          [Emit ''vehicle_emergency''
             (JObj [(''vehicle_id'', JStr ''V001''), (''message'', JStr ''sos'')])])"
  using C10_vehicle_emergency_frame
          [of "published ''v2x/vehicles/V001/emergency'' (JStr ''sos'')"
              "''v2x''" "''V001''" "[]" "JStr ''sos''" init_dashboard]
  by (simp add: published_def)

section \<open>The topic codec\<close>

lemma split_status_topic:
  "CHR ''/'' \<notin> set i \<Longrightarrow>
     split_on CHR ''/'' (format_topic VehicleStatus i) = [''v2x'', ''vehicles'', i, ''status'']"
  by (simp add: split_on_append)

lemma split_emergency_topic:
  "CHR ''/'' \<notin> set i \<Longrightarrow>
     split_on CHR ''/'' (format_topic VehicleEmergency i)
       = [''v2x'', ''vehicles'', i, ''emergency'']"
  by (simp add: split_on_append)

lemma split_infrastructure_topic:
  "CHR ''/'' \<notin> set i \<Longrightarrow>
     split_on CHR ''/'' (format_topic InfrastructureUpdate i) = [''v2x'', ''infrastructure'', i]"
  by (simp add: split_on_notin)

lemma split_broadcast_topic:
  "split_on CHR ''/'' (format_topic EmergencyBroadcast i) = [''v2x'', ''emergency'', ''broadcast'']"
  by simp

lemma split_assign_topic:
  "CHR ''/'' \<notin> set i \<Longrightarrow>
     split_on CHR ''/'' (format_topic JobAssignment i) = [''v2x'', ''jobs'', i, ''assign'']"
  by (simp add: split_on_append)

lemma split_response_topic:
  "CHR ''/'' \<notin> set i \<Longrightarrow>
     split_on CHR ''/'' (format_topic JobResponse i) = [''v2x'', ''jobs'', i, ''response'']"
  by (simp add: split_on_append)

lemmas split_format =
  split_status_topic split_emergency_topic split_infrastructure_topic split_broadcast_topic
  split_assign_topic split_response_topic

lemma parse_response_topic:
  "CHR ''/'' \<notin> set i \<Longrightarrow>
     parse_topic (format_topic JobResponse i) = Inr (Some (JobResponse, Some i))"
  by (simp add: parse_defs split_format del: format_topic.simps)

text \<open>
  Claim C8, as the code has it. For an identifier without \<^verbatim>\<open>/\<close>, formatting a topic and
  classifying it again recovers the kind and the identifier: in the dashboard's handler
  for vehicle status, vehicle emergency, infrastructure update and job response, and
  the kind alone for the emergency broadcast, whose topic carries no identifier; in the
  simulator's handler for vehicle status, vehicle emergency, job assignment and job
  response. Each handler classifies only the kinds it subscribes to: the dashboard's
  handler takes a job-assignment topic for a job response, and the simulator's handler
  takes no branch for an infrastructure-update or an emergency-broadcast topic.
\<close>

theorem C8_roundtrip_slash_free:
  assumes "CHR ''/'' \<notin> set i"
  shows "parse_topic (format_topic VehicleStatus i) = Inr (Some (VehicleStatus, Some i))
       \<and> parse_topic (format_topic VehicleEmergency i) = Inr (Some (VehicleEmergency, Some i))
       \<and> parse_topic (format_topic InfrastructureUpdate i)
           = Inr (Some (InfrastructureUpdate, Some i))
       \<and> parse_topic (format_topic EmergencyBroadcast i) = Inr (Some (EmergencyBroadcast, None))
       \<and> parse_topic (format_topic JobResponse i) = Inr (Some (JobResponse, Some i))
       \<and> sim_parse_topic (format_topic VehicleStatus i) = Inr (Some (VehicleStatus, Some i))
       \<and> sim_parse_topic (format_topic VehicleEmergency i)
           = Inr (Some (VehicleEmergency, Some i))
       \<and> sim_parse_topic (format_topic JobAssignment i) = Inr (Some (JobAssignment, Some i))
       \<and> sim_parse_topic (format_topic JobResponse i) = Inr (Some (JobResponse, Some i))
       \<and> parse_topic (format_topic JobAssignment i) = Inr (Some (JobResponse, Some i))
       \<and> sim_parse_topic (format_topic InfrastructureUpdate i) = Inr None
       \<and> sim_parse_topic (format_topic EmergencyBroadcast i) = Inr None"
  using assms
  by (simp add: parse_defs sim_parse_topic_def split_format del: format_topic.simps)

theorem C8_roundtrip_slash_free_witness:
  "CHR ''/'' \<notin> set ''V001''
   \<and> parse_topic ''v2x/vehicles/V001/status'' = Inr (Some (VehicleStatus, Some ''V001''))
   \<and> parse_topic ''v2x/infrastructure/V001'' = Inr (Some (InfrastructureUpdate, Some ''V001''))
   \<and> sim_parse_topic ''v2x/jobs/V001/assign'' = Inr (Some (JobAssignment, Some ''V001''))"
  using C8_roundtrip_slash_free [of "''V001''"] by simp

text \<open>
  The claim as stated fails. An identifier with a \<^verbatim>\<open>/\<close> is cut by the split, so that
  neither handler takes any branch; the dashboard's handler takes a job-assignment topic
  for a job response; the simulator's handler has no branch for an infrastructure topic.
\<close>

theorem C8_roundtrip_counterexample:
  "parse_topic (format_topic VehicleStatus ''a/b'') = Inr None
   \<and> sim_parse_topic (format_topic VehicleStatus ''a/b'') = Inr None
   \<and> parse_topic (format_topic JobAssignment ''J1'') = Inr (Some (JobResponse, Some ''J1''))
   \<and> sim_parse_topic (format_topic InfrastructureUpdate ''TL001'') = Inr None"
  by (simp add: parse_defs sim_parse_topic_def)

section \<open>The emergency history\<close>

lemma broadcast_deliver:
  "emergencies (deliver self (map (published (format_topic EmergencyBroadcast i)) evs))
     = emergencies self @ evs"
proof (induction evs arbitrary: self)
  case Nil
  show ?case by (simp add: deliver_Nil)
next
  case (Cons e evs)
  have "emergencies (fst (on_mqtt_message self (published (format_topic EmergencyBroadcast i) e)))
          = emergencies self @ [e]"
    by (simp add: on_mqtt_message_parse published_def parse_defs)
  with Cons.IH show ?case
    by (simp add: deliver_Cons del: format_topic.simps)
qed

text \<open>
  Claim C4, as the code has it. The emergency history is an append-only list with no
  capacity: after any sequence of broadcasts it holds everything it held before followed
  by every new event, in arrival order. The bound is on the read path only, which
  returns the last ten events of the history, most recent last; once ten events have
  been broadcast these are the last ten of the broadcast events.
\<close>

theorem C4_history_append_only:
  "emergencies (deliver self (map (published (format_topic EmergencyBroadcast [])) evs))
     = emergencies self @ evs
   \<and> get_emergencies (deliver self (map (published (format_topic EmergencyBroadcast [])) evs))
     = py_last_n 10 (emergencies self @ evs)
   \<and> (10 \<le> length evs \<longrightarrow>
        get_emergencies (deliver self (map (published (format_topic EmergencyBroadcast [])) evs))
          = drop (length evs - 10) evs)"
  by (simp add: broadcast_deliver get_emergencies_def py_last_n_def del: format_topic.simps)

theorem C4_history_append_only_witness:
  "10 \<le> length [JInt 20, JInt 21, JInt 22, JInt 23, JInt 24, JInt 25, JInt 26, JInt 27,
                 JInt 28, JInt 29, JInt 30, JInt 31]
   \<and> get_emergencies
        (deliver init_dashboard
           (map (published (format_topic EmergencyBroadcast []))
              [JInt 20, JInt 21, JInt 22, JInt 23, JInt 24, JInt 25, JInt 26, JInt 27,
               JInt 28, JInt 29, JInt 30, JInt 31]))
       = [JInt 22, JInt 23, JInt 24, JInt 25, JInt 26, JInt 27, JInt 28, JInt 29, JInt 30,
          JInt 31]"
proof -
  let ?evs = "[JInt 20, JInt 21, JInt 22, JInt 23, JInt 24, JInt 25, JInt 26, JInt 27,
               JInt 28, JInt 29, JInt 30, JInt 31]"
  have len: "10 \<le> length ?evs"
    by simp
  have "10 \<le> length ?evs \<longrightarrow>
          get_emergencies
            (deliver init_dashboard (map (published (format_topic EmergencyBroadcast [])) ?evs))
            = drop (length ?evs - 10) ?evs"
    using C4_history_append_only [of init_dashboard ?evs] by (rule conjunct2 [THEN conjunct2])
  with len have "get_emergencies
            (deliver init_dashboard (map (published (format_topic EmergencyBroadcast [])) ?evs))
            = drop (length ?evs - 10) ?evs"
    by (rule rev_mp)
  also have "drop (length ?evs - 10) ?evs
               = [JInt 22, JInt 23, JInt 24, JInt 25, JInt 26, JInt 27, JInt 28, JInt 29,
                  JInt 30, JInt 31]"
    by simp
  finally show ?thesis
    using len by blast
qed

text \<open>
  The claim as stated fails: eleven broadcasts leave eleven events in the history, the
  oldest among them, and no capacity bounds the length of the history.
\<close>

theorem C4_ring_buffer_counterexample:
  "emergencies (deliver init_dashboard
       (map (published (format_topic EmergencyBroadcast []))
          [JInt 0, JInt 1, JInt 2, JInt 3, JInt 4, JInt 5, JInt 6, JInt 7, JInt 8, JInt 9,
           JInt 10]))
     = [JInt 0, JInt 1, JInt 2, JInt 3, JInt 4, JInt 5, JInt 6, JInt 7, JInt 8, JInt 9, JInt 10]
   \<and> \<not> (\<exists>C. \<forall>evs. length (emergencies (deliver init_dashboard
                  (map (published (format_topic EmergencyBroadcast [])) evs))) \<le> C)"
proof -
  have "\<not> (\<exists>C. \<forall>evs. length (emergencies (deliver init_dashboard
                  (map (published (format_topic EmergencyBroadcast [])) evs))) \<le> C)"
  proof
    assume "\<exists>C. \<forall>evs. length (emergencies (deliver init_dashboard
                  (map (published (format_topic EmergencyBroadcast [])) evs))) \<le> C"
    then obtain C where
      "\<forall>evs. length (emergencies (deliver init_dashboard
                  (map (published (format_topic EmergencyBroadcast [])) evs))) \<le> C" ..
    then have "length (emergencies (deliver init_dashboard
                  (map (published (format_topic EmergencyBroadcast []))
                     (replicate (Suc C) JNull)))) \<le> C"
      by blast
    then show False
      unfolding broadcast_deliver by (simp add: init_dashboard_def)
  qed
  then show ?thesis
    unfolding broadcast_deliver by (simp add: init_dashboard_def)
qed

section \<open>The job registry\<close>

lemma job_response_step:
  assumes "parse_topic (topic m) = Inr (Some (JobResponse, Some jid))"
      and "payload m = Some r"
      and "jobs self jid = Some j"
  shows "fst (on_mqtt_message self m)
           = self\<lparr>jobs := (jobs self)(jid \<mapsto> j\<lparr>responses := Some (get_responses j @ [r])\<rparr>)\<rparr>"
  using assms by (simp add: on_mqtt_message_parse)

text \<open>
  Claim C2, as the code has it. Recording a response for a known job appends the
  response to the job's list and changes nothing else: the status, like every other
  field of the job and every other job, stays as it was, in the dashboard's handler
  and in the simulator's \<^verbatim>\<open>handle_job_response\<close> alike. In particular, after
  creating a diagnostic job for V001 and V002 in an empty registry and recording two
  responses, the registry holds exactly that one job, its status still \<^verbatim>\<open>pending\<close>
  and its responses the two responses in call order.
\<close>

theorem C2_response_appended_status_kept:
  assumes resp: "parse_topic (topic m) = Inr (Some (JobResponse, Some jid))" "payload m = Some r"
      and known: "jobs self jid = Some j"
      and sim_known: "sim_jobs sim jid = Some j"
      and id_ok: "CHR ''/'' \<notin> set (take 8 uuid4)"
  shows "get_jobs (fst (on_mqtt_message self m))
           = (jobs self)(jid \<mapsto> j\<lparr>responses := Some (get_responses j @ [r])\<rparr>)
       \<and> sim_jobs (fst (handle_job_response sim jid r))
           = (sim_jobs sim)(jid \<mapsto> j\<lparr>responses := Some (get_responses j @ [r])\<rparr>)
       \<and> get_jobs
           (deliver
              (fst (fst (create_job init_dashboard (JStr ''diagnostic'')
                           (JArr [JStr ''V001'', JStr ''V002'']) params uuid4 now)))
              [published (format_topic JobResponse (take 8 uuid4)) r1,
               published (format_topic JobResponse (take 8 uuid4)) r2])
           = [take 8 uuid4 \<mapsto>
                \<lparr>job_id = take 8 uuid4,
                 jtype = JStr ''diagnostic'',
                 timestamp = now,
                 target_vehicles = JArr [JStr ''V001'', JStr ''V002''],
                 parameters = (if truthy params then params else JObj []),
                 status = ''pending'',
                 responses = Some [r1, r2]\<rparr>]"
proof -
  have step: "get_jobs (fst (on_mqtt_message self m))
           = (jobs self)(jid \<mapsto> j\<lparr>responses := Some (get_responses j @ [r])\<rparr>)"
    using resp known by (simp add: job_response_step get_jobs_def)
  have sim_step: "sim_jobs (fst (handle_job_response sim jid r))
           = (sim_jobs sim)(jid \<mapsto> j\<lparr>responses := Some (get_responses j @ [r])\<rparr>)"
    using sim_known by (simp add: handle_job_response_def)
  define pa where "pa = (if truthy params then params else JObj [])"
  let ?jid = "take 8 uuid4"
  let ?t = "format_topic JobResponse ?jid"
  let ?m1 = "published ?t r1"
  let ?m2 = "published ?t r2"
  let ?J = "\<lambda>rs. \<lparr>job_id = ?jid, jtype = JStr ''diagnostic'', timestamp = now,
              target_vehicles = JArr [JStr ''V001'', JStr ''V002''],
              parameters = pa, status = ''pending'', responses = rs\<rparr>"
  let ?S = "\<lambda>rs. init_dashboard\<lparr>jobs := [?jid \<mapsto> ?J rs]\<rparr>"
  let ?s0 = "fst (fst (create_job init_dashboard (JStr ''diagnostic'')
                           (JArr [JStr ''V001'', JStr ''V002'']) params uuid4 now))"
  have p: "parse_topic (topic (published ?t x)) = Inr (Some (JobResponse, Some ?jid))" for x
    using id_ok by (simp add: published_def parse_response_topic del: format_topic.simps)
  have q: "payload (published ?t x) = Some x" for x
    by (simp add: published_def)
  have s0: "?s0 = ?S None"
    by (simp add: create_job_def Let_def pa_def init_dashboard_def)
  have s1: "fst (on_mqtt_message (?S None) ?m1) = ?S (Some [r1])"
    by (subst job_response_step [OF p q, where j = "?J None"])
       (simp_all add: get_responses_def)
  have s2: "fst (on_mqtt_message (?S (Some [r1])) ?m2) = ?S (Some [r1, r2])"
    by (subst job_response_step [OF p q, where j = "?J (Some [r1])"])
       (simp_all add: get_responses_def)
  have "deliver ?s0 [?m1, ?m2] = fst (on_mqtt_message (fst (on_mqtt_message ?s0 ?m1)) ?m2)"
    by (simp add: deliver_def)
  also have "\<dots> = fst (on_mqtt_message (fst (on_mqtt_message (?S None) ?m1)) ?m2)"
    by (simp only: s0)
  also have "\<dots> = fst (on_mqtt_message (?S (Some [r1])) ?m2)"
    by (simp only: s1)
  also have "\<dots> = ?S (Some [r1, r2])"
    by (rule s2)
  finally have "get_jobs (deliver ?s0 [?m1, ?m2]) = [?jid \<mapsto> ?J (Some [r1, r2])]"
    by (simp add: get_jobs_def)
  then have scenario: "get_jobs (deliver ?s0 [?m1, ?m2])
            = [?jid \<mapsto>
                \<lparr>job_id = ?jid, jtype = JStr ''diagnostic'', timestamp = now,
                 target_vehicles = JArr [JStr ''V001'', JStr ''V002''],
                 parameters = (if truthy params then params else JObj []),
                 status = ''pending'', responses = Some [r1, r2]\<rparr>]"
    by (simp only: pa_def)
  from step sim_step scenario show ?thesis
    by (intro conjI)
qed

theorem C2_response_appended_status_kept_witness:
  "parse_topic ''v2x/jobs/3f2b8c1e/response'' = Inr (Some (JobResponse, Some ''3f2b8c1e''))
   \<and> CHR ''/'' \<notin> set (take 8 ''3f2b8c1e-aaaa-4aaa-8aaa-aaaaaaaaaaaa'')
   \<and> get_jobs
        (deliver
           (fst (fst (create_job init_dashboard (JStr ''diagnostic'')
                        (JArr [JStr ''V001'', JStr ''V002'']) JNull
                        ''3f2b8c1e-aaaa-4aaa-8aaa-aaaaaaaaaaaa'' ''2024-01-01T00:00:00'')))
           [published (format_topic JobResponse ''3f2b8c1e'') (JStr ''ack 1''),
            published (format_topic JobResponse ''3f2b8c1e'') (JStr ''ack 2'')])
       = [''3f2b8c1e'' \<mapsto>
            \<lparr>job_id = ''3f2b8c1e'', jtype = JStr ''diagnostic'',
             timestamp = ''2024-01-01T00:00:00'',
             target_vehicles = JArr [JStr ''V001'', JStr ''V002''],
             parameters = JObj [], status = ''pending'',
             responses = Some [JStr ''ack 1'', JStr ''ack 2'']\<rparr>]"
proof -
  let ?j = "\<lparr>job_id = ''3f2b8c1e'', jtype = JStr ''diagnostic'',
             timestamp = ''2024-01-01T00:00:00'',
             target_vehicles = JArr [JStr ''V001'', JStr ''V002''],
             parameters = JObj [], status = ''pending'', responses = None\<rparr>"
  have h1: "parse_topic (topic (published ''v2x/jobs/3f2b8c1e/response'' (JStr ''ack 1'')))
              = Inr (Some (JobResponse, Some ''3f2b8c1e''))"
    by (simp add: published_def parse_defs)
  have h2: "payload (published ''v2x/jobs/3f2b8c1e/response'' (JStr ''ack 1''))
              = Some (JStr ''ack 1'')"
    by (simp add: published_def)
  have h3: "jobs (init_dashboard\<lparr>jobs := [''3f2b8c1e'' \<mapsto> ?j]\<rparr>) ''3f2b8c1e'' = Some ?j"
    by simp
  have h4: "sim_jobs \<lparr>sim_vehicles = Map.empty, sim_jobs = [''3f2b8c1e'' \<mapsto> ?j]\<rparr> ''3f2b8c1e''
              = Some ?j"
    by simp
  have h5: "CHR ''/'' \<notin> set (take 8 ''3f2b8c1e-aaaa-4aaa-8aaa-aaaaaaaaaaaa'')"
    by simp
  from C2_response_appended_status_kept [OF h1 h2 h3 h4 h5,
         of JNull "''2024-01-01T00:00:00''" "JStr ''ack 1''" "JStr ''ack 2''"]
  have "get_jobs
        (deliver
           (fst (fst (create_job init_dashboard (JStr ''diagnostic'')
                        (JArr [JStr ''V001'', JStr ''V002'']) JNull
                        ''3f2b8c1e-aaaa-4aaa-8aaa-aaaaaaaaaaaa'' ''2024-01-01T00:00:00'')))
           [published (format_topic JobResponse
                         (take 8 ''3f2b8c1e-aaaa-4aaa-8aaa-aaaaaaaaaaaa'')) (JStr ''ack 1''),
            published (format_topic JobResponse
                         (take 8 ''3f2b8c1e-aaaa-4aaa-8aaa-aaaaaaaaaaaa'')) (JStr ''ack 2'')])
       = [take 8 ''3f2b8c1e-aaaa-4aaa-8aaa-aaaaaaaaaaaa'' \<mapsto>
            \<lparr>job_id = take 8 ''3f2b8c1e-aaaa-4aaa-8aaa-aaaaaaaaaaaa'',
             jtype = JStr ''diagnostic'',
             timestamp = ''2024-01-01T00:00:00'',
             target_vehicles = JArr [JStr ''V001'', JStr ''V002''],
             parameters = (if truthy JNull then JNull else JObj []),
             status = ''pending'',
             responses = Some [JStr ''ack 1'', JStr ''ack 2'']\<rparr>]"
    by (rule conjunct2 [THEN conjunct2])
  moreover have "take 8 ''3f2b8c1e-aaaa-4aaa-8aaa-aaaaaaaaaaaa'' = ''3f2b8c1e''"
    by simp
  moreover have "parse_topic ''v2x/jobs/3f2b8c1e/response''
                   = Inr (Some (JobResponse, Some ''3f2b8c1e''))"
    by (simp add: parse_defs)
  ultimately show ?thesis
    using h5 by simp
qed

text \<open>
  The claim as stated fails: after the job is created and both responses are recorded,
  its status is \<^verbatim>\<open>pending\<close>, not \<^verbatim>\<open>active\<close>.
\<close>

theorem C2_status_active_counterexample:
  "map_option status
     (get_jobs
        (deliver
           (fst (fst (create_job init_dashboard (JStr ''diagnostic'')
                        (JArr [JStr ''V001'', JStr ''V002'']) JNull
                        ''3f2b8c1e-aaaa-4aaa-8aaa-aaaaaaaaaaaa'' ''2024-01-01T00:00:00'')))
           [published ''v2x/jobs/3f2b8c1e/response'' (JObj [(''vehicle_id'', JStr ''V001'')]),
            published ''v2x/jobs/3f2b8c1e/response'' (JObj [(''vehicle_id'', JStr ''V002'')])])
        ''3f2b8c1e'')
     = Some ''pending''
   \<and> map_option status
     (get_jobs
        (deliver
           (fst (fst (create_job init_dashboard (JStr ''diagnostic'')
                        (JArr [JStr ''V001'', JStr ''V002'']) JNull
                        ''3f2b8c1e-aaaa-4aaa-8aaa-aaaaaaaaaaaa'' ''2024-01-01T00:00:00'')))
           [published ''v2x/jobs/3f2b8c1e/response'' (JObj [(''vehicle_id'', JStr ''V001'')]),
            published ''v2x/jobs/3f2b8c1e/response'' (JObj [(''vehicle_id'', JStr ''V002'')])])
        ''3f2b8c1e'')
     \<noteq> Some ''active''"
  by (simp add: deliver_def on_mqtt_message_parse parse_defs published_def create_job_def
      Let_def init_dashboard_def get_jobs_def get_responses_def)

lemma uuid4_prefix_in_space:
  assumes "is_uuid4_str u"
  shows "take 8 u \<in> job_id_space"
proof -
  let ?f = "\<lambda>c. c = CHR ''-''"
  from assms have hy: "map ?f u = uuid_hyphens"
    and al: "list_all (\<lambda>c. c = CHR ''-'' \<or> c \<in> set hex_digits) u"
    by (simp_all add: is_uuid4_str_def)
  from hy have "length (map ?f u) = length uuid_hyphens"
    by simp
  then have len: "length u = 36"
    by (simp add: uuid_hyphens_def)
  have "map ?f (take 8 u) = take 8 (map ?f u)"
    by (simp add: take_map)
  also have "\<dots> = replicate 8 False"
    by (simp add: hy uuid_hyphens_def)
  finally have "set (map ?f (take 8 u)) \<subseteq> {False}"
    by simp
  then have no_hyphen: "c \<noteq> CHR ''-''" if "c \<in> set (take 8 u)" for c
    using that by auto
  have "c \<in> set hex_digits" if "c \<in> set (take 8 u)" for c
  proof -
    from that have "c \<in> set u"
      by (rule in_set_takeD)
    with al have "c = CHR ''-'' \<or> c \<in> set hex_digits"
      by (simp add: list_all_iff)
    with no_hyphen [OF that] show ?thesis
      by simp
  qed
  with len show ?thesis
    by (auto simp: job_id_space_def)
qed

lemma card_job_id_space: "card job_id_space = 2 ^ 32"
proof -
  have "distinct hex_digits"
    by (simp add: hex_digits_def)
  then have "card (set hex_digits) = 16"
    by (simp add: distinct_card hex_digits_def)
  then have "card job_id_space = 16 ^ 8"
    unfolding job_id_space_def by (simp add: card_lists_length_eq)
  then show ?thesis
    by simp
qed

text \<open>
  Claim C7, as the code has it. The job ID is the first eight characters of a fresh
  UUID string: eight hexadecimal digits, so one of \<open>2 ^ 32\<close> identifiers, fewer than
  \<open>2 ^ 48\<close>. It is not compared with the registry: the new record is stored under it
  unconditionally, so every record under another ID is kept and a record already
  under this ID is replaced.
\<close>

theorem C7_job_id_unchecked:
  assumes "is_uuid4_str uuid4"
  shows "snd (create_job self ty tg pa uuid4 now) = take 8 uuid4
       \<and> snd (create_job self ty tg pa uuid4 now) \<in> job_id_space
       \<and> card job_id_space = 2 ^ 32
       \<and> card job_id_space < 2 ^ 48
       \<and> get_jobs (fst (fst (create_job self ty tg pa uuid4 now)))
           = (jobs self)
               (take 8 uuid4 \<mapsto>
                  \<lparr>job_id = take 8 uuid4, jtype = ty, timestamp = now, target_vehicles = tg,
                   parameters = (if truthy pa then pa else JObj []), status = ''pending'',
                   responses = None\<rparr>)"
proof -
  have "snd (create_job self ty tg pa uuid4 now) = take 8 uuid4"
    by (simp add: create_job_def Let_def)
  moreover have "take 8 uuid4 \<in> job_id_space"
    using assms by (rule uuid4_prefix_in_space)
  moreover have "card job_id_space < 2 ^ 48"
    by (simp add: card_job_id_space)
  moreover have "get_jobs (fst (fst (create_job self ty tg pa uuid4 now)))
           = (jobs self)
               (take 8 uuid4 \<mapsto>
                  \<lparr>job_id = take 8 uuid4, jtype = ty, timestamp = now, target_vehicles = tg,
                   parameters = (if truthy pa then pa else JObj []), status = ''pending'',
                   responses = None\<rparr>)"
    by (simp add: create_job_def Let_def get_jobs_def)
  ultimately show ?thesis
    using card_job_id_space by simp
qed

theorem C7_job_id_unchecked_witness:
  "is_uuid4_str ''3f2b8c1e-aaaa-4aaa-8aaa-aaaaaaaaaaaa''
   \<and> snd (create_job init_dashboard (JStr ''diagnostic'') (JArr [JStr ''V001'']) JNull
            ''3f2b8c1e-aaaa-4aaa-8aaa-aaaaaaaaaaaa'' ''2024-01-01T00:00:00'') = ''3f2b8c1e''
   \<and> ''3f2b8c1e'' \<in> job_id_space"
proof -
  have h: "is_uuid4_str ''3f2b8c1e-aaaa-4aaa-8aaa-aaaaaaaaaaaa''"
    by code_simp
  from C7_job_id_unchecked [OF h, of init_dashboard "JStr ''diagnostic''"
         "JArr [JStr ''V001'']" JNull "''2024-01-01T00:00:00''"]
  have "snd (create_job init_dashboard (JStr ''diagnostic'') (JArr [JStr ''V001'']) JNull
            ''3f2b8c1e-aaaa-4aaa-8aaa-aaaaaaaaaaaa'' ''2024-01-01T00:00:00'')
          = take 8 ''3f2b8c1e-aaaa-4aaa-8aaa-aaaaaaaaaaaa''"
    and "snd (create_job init_dashboard (JStr ''diagnostic'') (JArr [JStr ''V001'']) JNull
            ''3f2b8c1e-aaaa-4aaa-8aaa-aaaaaaaaaaaa'' ''2024-01-01T00:00:00'') \<in> job_id_space"
    by blast+
  with h show ?thesis
    by simp
qed

text \<open>
  The claim as stated fails: two distinct UUID strings with the same first eight
  characters give the second job the ID of the first, and the second record replaces
  the first, so that two creations leave one job in the registry.
\<close>

theorem C7_collision_counterexample:
  "is_uuid4_str ''3f2b8c1e-aaaa-4aaa-8aaa-aaaaaaaaaaaa''
   \<and> is_uuid4_str ''3f2b8c1e-bbbb-4bbb-9bbb-bbbbbbbbbbbb''
   \<and> snd (create_job
            (fst (fst (create_job init_dashboard (JStr ''diagnostic'')
                         (JArr [JStr ''V001'', JStr ''V002'']) JNull
                         ''3f2b8c1e-aaaa-4aaa-8aaa-aaaaaaaaaaaa'' ''2024-01-01T00:00:00'')))
            (JStr ''navigation'') (JArr [JStr ''V003'']) JNull
            ''3f2b8c1e-bbbb-4bbb-9bbb-bbbbbbbbbbbb'' ''2024-01-01T00:00:05'')
       = snd (create_job init_dashboard (JStr ''diagnostic'')
                (JArr [JStr ''V001'', JStr ''V002'']) JNull
                ''3f2b8c1e-aaaa-4aaa-8aaa-aaaaaaaaaaaa'' ''2024-01-01T00:00:00'')
   \<and> dom (get_jobs
        (fst (fst (create_job
            (fst (fst (create_job init_dashboard (JStr ''diagnostic'')
                         (JArr [JStr ''V001'', JStr ''V002'']) JNull
                         ''3f2b8c1e-aaaa-4aaa-8aaa-aaaaaaaaaaaa'' ''2024-01-01T00:00:00'')))
            (JStr ''navigation'') (JArr [JStr ''V003'']) JNull
            ''3f2b8c1e-bbbb-4bbb-9bbb-bbbbbbbbbbbb'' ''2024-01-01T00:00:05''))))
       = {''3f2b8c1e''}
   \<and> map_option jtype (get_jobs
        (fst (fst (create_job
            (fst (fst (create_job init_dashboard (JStr ''diagnostic'')
                         (JArr [JStr ''V001'', JStr ''V002'']) JNull
                         ''3f2b8c1e-aaaa-4aaa-8aaa-aaaaaaaaaaaa'' ''2024-01-01T00:00:00'')))
            (JStr ''navigation'') (JArr [JStr ''V003'']) JNull
            ''3f2b8c1e-bbbb-4bbb-9bbb-bbbbbbbbbbbb'' ''2024-01-01T00:00:05''))) ''3f2b8c1e'')
       = Some (JStr ''navigation'')"
proof -
  have "is_uuid4_str ''3f2b8c1e-aaaa-4aaa-8aaa-aaaaaaaaaaaa''"
    by code_simp
  moreover have "is_uuid4_str ''3f2b8c1e-bbbb-4bbb-9bbb-bbbbbbbbbbbb''"
    by code_simp
  ultimately show ?thesis
    by (simp add: create_job_def Let_def get_jobs_def init_dashboard_def)
qed

text \<open>
  Claim C6, as the code has it. Job creation validates nothing. A request whose target
  list is empty, or absent (it then defaults to the empty list), succeeds: the job is
  stored under its new ID with an empty target list and the status \<^verbatim>\<open>pending\<close>, one
  assignment message is published, and the reply reports the job as created.
\<close>

theorem C6_empty_targets_accepted:
  assumes "dict_get d ''target_vehicles'' (JArr []) = JArr []"
  shows "create_job_route self (JObj d) uuid4 now
           = Inr ((self\<lparr>jobs := (jobs self)
                     (take 8 uuid4 \<mapsto>
                        \<lparr>job_id = take 8 uuid4,
                         jtype = dict_get d ''type'' JNull,
                         timestamp = now,
                         target_vehicles = JArr [],
                         parameters = (if truthy (dict_get d ''parameters'' (JObj []))
                                       then dict_get d ''parameters'' (JObj []) else JObj []),
                         status = ''pending'',
                         responses = None\<rparr>)\<rparr>,
                   [Publish (format_topic JobAssignment (take 8 uuid4))
                      \<lparr>job_id = take 8 uuid4,
                       jtype = dict_get d ''type'' JNull,
                       timestamp = now,
                       target_vehicles = JArr [],
                       parameters = (if truthy (dict_get d ''parameters'' (JObj []))
                                     then dict_get d ''parameters'' (JObj []) else JObj []),
                       status = ''pending'',
                       responses = None\<rparr>]),
                  JObj [(''job_id'', JStr (take 8 uuid4)), (''status'', JStr ''created'')])"
  using assms by (simp add: create_job_route_def create_job_def Let_def)

theorem C6_empty_targets_accepted_witness:
  "dict_get [(''type'', JStr ''navigation'')] ''target_vehicles'' (JArr []) = JArr []
   \<and> create_job_route init_dashboard (JObj [(''type'', JStr ''navigation'')])
        ''3f2b8c1e-aaaa-4aaa-8aaa-aaaaaaaaaaaa'' ''2024-01-01T00:00:00''
       = Inr ((init_dashboard\<lparr>jobs :=
                 [''3f2b8c1e'' \<mapsto>
                    \<lparr>job_id = ''3f2b8c1e'', jtype = JStr ''navigation'',
                     timestamp = ''2024-01-01T00:00:00'', target_vehicles = JArr [],
                     parameters = JObj [], status = ''pending'', responses = None\<rparr>]\<rparr>,
               [Publish ''v2x/jobs/3f2b8c1e/assign''
                  \<lparr>job_id = ''3f2b8c1e'', jtype = JStr ''navigation'',
                   timestamp = ''2024-01-01T00:00:00'', target_vehicles = JArr [],
                   parameters = JObj [], status = ''pending'', responses = None\<rparr>]),
              JObj [(''job_id'', JStr ''3f2b8c1e''), (''status'', JStr ''created'')])"
proof -
  have h: "dict_get [(''type'', JStr ''navigation'')] ''target_vehicles'' (JArr []) = JArr []"
    by (simp add: dict_get_def)
  from C6_empty_targets_accepted [OF h, of init_dashboard
         "''3f2b8c1e-aaaa-4aaa-8aaa-aaaaaaaaaaaa''" "''2024-01-01T00:00:00''"]
  show ?thesis
    using h by (simp add: dict_get_def init_dashboard_def)
qed

text \<open>
  The claim as stated fails: a request with \<^verbatim>\<open>"target_vehicles": []\<close> does not fail; it
  adds a job record to the empty registry and publishes an assignment message.
\<close>

theorem C6_empty_targets_counterexample:
  "create_job_route init_dashboard
     (JObj [(''type'', JStr ''diagnostic''), (''target_vehicles'', JArr [])])
     ''3f2b8c1e-aaaa-4aaa-8aaa-aaaaaaaaaaaa'' ''2024-01-01T00:00:00''
   = Inr ((init_dashboard\<lparr>jobs :=
              [''3f2b8c1e'' \<mapsto>
                 \<lparr>job_id = ''3f2b8c1e'', jtype = JStr ''diagnostic'',
                  timestamp = ''2024-01-01T00:00:00'', target_vehicles = JArr [],
                  parameters = JObj [], status = ''pending'', responses = None\<rparr>]\<rparr>,
           [Publish ''v2x/jobs/3f2b8c1e/assign''
              \<lparr>job_id = ''3f2b8c1e'', jtype = JStr ''diagnostic'',
               timestamp = ''2024-01-01T00:00:00'', target_vehicles = JArr [],
               parameters = JObj [], status = ''pending'', responses = None\<rparr>]),
          JObj [(''job_id'', JStr ''3f2b8c1e''), (''status'', JStr ''created'')])"
  by (simp add: create_job_route_def create_job_def Let_def dict_get_def init_dashboard_def)

section \<open>Messages the handler drops\<close>

text \<open>
  Claim C5, as the code has it. The handler drops a message, leaving every store as it
  was and letting no exception out (an exception is caught and printed), when the
  decoder rejects the payload (\<^verbatim>\<open>msg.payload.decode()\<close> or \<^verbatim>\<open>json.loads\<close> raises,
  the case \<open>payload msg = None\<close>), when the topic has fewer segments than the branch
  chosen by
  its second segment reads (no second segment; \<^verbatim>\<open>vehicles\<close> without a fourth segment, as
  in \<^verbatim>\<open>v2x/vehicles/status\<close>; \<^verbatim>\<open>infrastructure\<close> or \<^verbatim>\<open>jobs\<close> without a third), and when
  its segments choose no branch (a second segment that is none of the four categories,
  or \<^verbatim>\<open>vehicles\<close> with a fourth segment that is neither \<^verbatim>\<open>status\<close> nor \<^verbatim>\<open>emergency\<close>).
\<close>

theorem C5_dropped_messages:
  assumes "payload msg = None
         \<or> length (split_on CHR ''/'' (topic msg)) < 2
         \<or> split_on CHR ''/'' (topic msg) ! 1 = ''vehicles''
             \<and> (length (split_on CHR ''/'' (topic msg)) < 4
                \<or> split_on CHR ''/'' (topic msg) ! 3 \<notin> {''status'', ''emergency''})
         \<or> split_on CHR ''/'' (topic msg) ! 1 \<in> {''infrastructure'', ''jobs''}
             \<and> length (split_on CHR ''/'' (topic msg)) < 3
         \<or> split_on CHR ''/'' (topic msg) ! 1
             \<notin> {''vehicles'', ''infrastructure'', ''emergency'', ''jobs''}"
  shows "on_mqtt_message self msg
           \<in> {(self, []), (self, [Print IndexError]), (self, [Print ValueError])}"
proof (cases "payload msg")
  case None
  then show ?thesis
    by (simp add: on_mqtt_message_parse)
next
  case (Some message)
  with assms have "parse_topic (topic msg) = Inl IndexError \<or> parse_topic (topic msg) = Inr None"
    unfolding parse_defs Let_def
    by (auto split: if_splits)
  with Some show ?thesis
    by (auto simp: on_mqtt_message_parse)
qed

theorem C5_dropped_messages_witness:
  "split_on CHR ''/'' ''v2x/vehicles/status'' ! 1 = ''vehicles''
   \<and> length (split_on CHR ''/'' ''v2x/vehicles/status'') < 4
   \<and> on_mqtt_message init_dashboard (published ''v2x/vehicles/status'' (JObj []))
       \<in> {(init_dashboard, []), (init_dashboard, [Print IndexError]),
           (init_dashboard, [Print ValueError])}"
proof -
  have h: "split_on CHR ''/'' ''v2x/vehicles/status'' ! 1 = ''vehicles''
           \<and> length (split_on CHR ''/'' ''v2x/vehicles/status'') < 4"
    by simp
  then have "on_mqtt_message init_dashboard (published ''v2x/vehicles/status'' (JObj []))
       \<in> {(init_dashboard, []), (init_dashboard, [Print IndexError]),
           (init_dashboard, [Print ValueError])}"
    by (intro C5_dropped_messages) (simp add: published_def)
  with h show ?thesis
    by blast
qed

text \<open>
  The claim as stated fails: \<^verbatim>\<open>v2x/emergency\<close> lacks a segment and is none of the
  topics of the specification's table, yet the handler appends its payload to the
  emergency history.
\<close>

theorem C5_malformed_topic_counterexample:
  "\<not> spec_topic_grammar ''v2x/emergency''
   \<and> on_mqtt_message init_dashboard (published ''v2x/emergency'' (JStr ''x''))
       = (init_dashboard\<lparr>emergencies := [JStr ''x'']\<rparr>, [Emit ''emergency_alert'' (JStr ''x'')])
   \<and> emergencies (fst (on_mqtt_message init_dashboard (published ''v2x/emergency'' (JStr ''x''))))
       \<noteq> emergencies init_dashboard"
  by (simp add: spec_topic_grammar_def on_mqtt_message_parse parse_defs published_def
      init_dashboard_def)

end
